theory Spec2Isabelle
  imports Complex_Main "HOL-Library.Sublist" "HOL-Library.Word"
begin

section \<open>The frontend component (App.tsx): data\<close>

text \<open>
  The React component keeps its state in hooks. The model passes that state explicitly:
  every handler takes the state and returns the state after it has run.
  Strings are \<open>string\<close>; a JavaScript value that may be \<open>undefined\<close> is an \<open>option\<close>.
\<close>

record ProfileMetrics =
  followers :: int
  postsCount :: nat
  engagementRate :: real
  profileName :: "string option"
  profileImageCid :: "string option"
  description :: "string option"

record ActionResponse =
  action_id :: int
  action_name :: string

text \<open>An entry of the activity log. The fields \<open>id\<close>, \<open>name\<close>, \<open>status\<close> and
  \<open>message\<close> of the source carry the prefix \<open>log_\<close> here.\<close>

record ActionLog =
  log_id :: string
  log_timestamp :: int
  log_name :: string
  log_status :: string
  log_message :: string
  log_txHash :: "string option"

text \<open>What a caller of \<open>addLog\<close> supplies: an entry without \<open>id\<close> and \<open>timestamp\<close>.\<close>

record LogEntry =
  entry_name :: string
  entry_status :: string
  entry_message :: string
  entry_txHash :: "string option"

record ActionSpec =
  spec_name :: string
  requires :: "string list option"

definition AVAILABLE_ACTIONS :: "int \<Rightarrow> ActionSpec option" where
  "AVAILABLE_ACTIONS k =
     (if k = 0 then Some \<lparr>spec_name = ''Make Post'', requires = Some [''content'']\<rparr>
      else if k = 1 then Some \<lparr>spec_name = ''Follow Profile'', requires = Some [''target'']\<rparr>
      else if k = 2 then
        Some \<lparr>spec_name = ''Reward Follower'', requires = Some [''target'', ''amount'']\<rparr>
      else None)"

text \<open>\<open>action.requires?.includes(p)\<close>: false when \<open>requires\<close> is absent.\<close>

definition requires_includes :: "ActionSpec \<Rightarrow> string \<Rightarrow> bool" where
  "requires_includes a p = (case requires a of None \<Rightarrow> False | Some ps \<Rightarrow> p \<in> set ps)"

text \<open>The required parameters of an action, as a set.\<close>

definition required_set :: "ActionSpec \<Rightarrow> string set" where
  "required_set a = (case requires a of None \<Rightarrow> {} | Some ps \<Rightarrow> set ps)"

text \<open>
  \<open>addLog\<close>: the new entry, stamped with a fresh id and the current time, goes in front;
  the list is cut to its first 50 entries. The id (\<open>crypto.randomUUID()\<close>) and the time
  (\<open>Date.now()\<close>) come from the environment and are the argument \<open>stamp\<close>.
\<close>

definition mk_log :: "string \<times> int \<Rightarrow> LogEntry \<Rightarrow> ActionLog" where
  "mk_log stamp e =
     \<lparr>log_id = fst stamp, log_timestamp = snd stamp, log_name = entry_name e,
      log_status = entry_status e, log_message = entry_message e,
      log_txHash = entry_txHash e\<rparr>"

definition addLog :: "string \<times> int \<Rightarrow> LogEntry \<Rightarrow> ActionLog list \<Rightarrow> ActionLog list" where
  "addLog stamp e l = take 50 (mk_log stamp e # l)"

section \<open>The frontend component: state, environment, helpers\<close>

record AppState =
  address :: "string option"
  provider :: bool
  metrics :: "ProfileMetrics option"
  recommendation :: "ActionResponse option"
  logs :: "ActionLog list"
  loading_metrics :: bool
  loading_recommend :: bool
  loading_exec :: bool
  error :: "string option"
  target :: string
  content :: string
  amount :: string

text \<open>The body of the request to \<open>/execute-action\<close>.\<close>

record Payload =
  up_address :: string
  payload_action_id :: int
  target_address :: "string option"
  post_content_cid :: "string option"
  reward_amount_wei :: "string option"

text \<open>The body of the request to \<open>/recommend-action\<close>.\<close>

record RecommendBody =
  rec_up_address :: string
  rec_followers :: int
  rec_posts :: nat
  rec_engagement :: real

text \<open>\<open>res.data.details\<close> of the answer of \<open>/execute-action\<close>.\<close>

record Details =
  transactionHash :: "string option"
  txHash :: "string option"

text \<open>The value of the key \<open>LSP3Profile\<close> as \<open>fetchData\<close> returns it (the inner
  object \<open>profile.LSP3Profile\<close>), and the two values the component reads.\<close>

record LSP3Profile =
  lsp3_name :: "string option"
  lsp3_description :: "string option"
  lsp3_profileImage :: "string option list option"

record FetchedData =
  fetched_LSP3Profile :: "LSP3Profile option"
  fetched_LSP12IssuedAssets :: "string list option"

text \<open>
  What the handlers observe of the outside world. Functions of other packages
  (\<open>isAddress\<close> and \<open>parseUnits\<close> of ethers, \<open>axios.post\<close>,
  \<open>erc725.fetchData\<close>) are fields of the environment; a thrown error is \<open>Inl\<close> of
  its message. \<open>random1\<close> and \<open>random2\<close> are the two results of \<open>Math.random()\<close>
  in \<open>fetchMetrics\<close>; \<open>stamp1\<close> and \<open>stamp2\<close> are the id and time of the first and
  of the second log entry a handler writes.
\<close>

record Env =
  isAddress :: "string \<Rightarrow> bool"
  parseUnits :: "string \<Rightarrow> string \<Rightarrow> string + int"
  post_execute :: "Payload \<Rightarrow> string + Details option option"
  post_recommend :: "RecommendBody \<Rightarrow> string + ActionResponse option"
  fetchData :: "string \<Rightarrow> string + FetchedData"
  random1 :: real
  random2 :: real
  stamp1 :: "string \<times> int"
  stamp2 :: "string \<times> int"

text \<open>What a handler does to the outside world, in order.\<close>

datatype Effect =
    PostExecute Payload
  | PostRecommend RecommendBody
  | FetchData string
  | ScheduleFetchMetrics
  | Uncaught string

text \<open>JavaScript truthiness of a string that may be undefined, and \<open>a || b\<close>.\<close>

definition truthy :: "string option \<Rightarrow> bool" where
  "truthy a = (case a of None \<Rightarrow> False | Some s \<Rightarrow> s \<noteq> [])"

definition js_or :: "string option \<Rightarrow> string option \<Rightarrow> string option" where
  "js_or a b = (if truthy a then a else b)"

text \<open>\<open>s.replace(pat, rep)\<close> with a string pattern: the first occurrence only.\<close>

fun replace_first :: "string \<Rightarrow> string \<Rightarrow> string \<Rightarrow> string" where
  "replace_first pat rep [] = (if pat = [] then rep else [])"
| "replace_first pat rep (c # cs) =
     (if prefix pat (c # cs) then rep @ drop (length pat) (c # cs)
      else c # replace_first pat rep cs)"

text \<open>Decimal digits of a non-negative integer, and \<open>toString()\<close> of a bigint.\<close>

function decimal_digits :: "int \<Rightarrow> string" where
  "decimal_digits n =
     (if n < 10 then [char_of (48 + n)]
      else decimal_digits (n div 10) @ [char_of (48 + n mod 10)])"
  by pat_completeness auto
termination
  by (relation "measure nat") auto

declare decimal_digits.simps [simp del]

definition toString :: "int \<Rightarrow> string" where
  "toString i = (if i < 0 then CHR ''-'' # decimal_digits (- i) else decimal_digits i)"

section \<open>The frontend component: handlers\<close>

text \<open>The \<open>catch\<close> and \<open>finally\<close> blocks of the three handlers: the error message is
  shown, a \<open>failed\<close> entry is logged, the loading flag is cleared.\<close>

definition log_failed :: "Env \<Rightarrow> string \<Rightarrow> string \<Rightarrow> AppState \<Rightarrow> AppState" where
  "log_failed env nm msg st =
     st\<lparr>error := Some msg,
        logs := addLog (stamp2 env)
          \<lparr>entry_name = nm, entry_status = ''failed'', entry_message = msg,
           entry_txHash = None\<rparr> (logs st)\<rparr>"

text \<open>
  \<open>fetchMetrics\<close>. Without an address it returns at once. Otherwise it logs a
  \<open>pending\<close> entry and reads the profile; the post count is the number of issued assets,
  the follower count and the engagement rate are drawn with \<open>Math.random()\<close>.
  \<open>toFixed(3)\<close> is modelled as rounding to three decimals on the reals.
\<close>

definition toFixed3 :: "real \<Rightarrow> real" where
  "toFixed3 x = of_int \<lfloor>x * 1000 + 1 / 2\<rfloor> / 1000"

text \<open>\<open>profile?.LSP3Profile?.profileImage?.[0]?.url.replace('ipfs://','')\<close>: undefined when
  there is no first image, a TypeError when the first image has no \<open>url\<close>.\<close>

definition image_cid :: "LSP3Profile option \<Rightarrow> string + string option" where
  "image_cid p =
     (case p of None \<Rightarrow> Inr None
      | Some q \<Rightarrow>
        (case lsp3_profileImage q of None \<Rightarrow> Inr None
         | Some [] \<Rightarrow> Inr None
         | Some (None # _) \<Rightarrow> Inl ''Cannot read properties of undefined (reading 'replace')''
         | Some (Some url # _) \<Rightarrow> Inr (Some (replace_first ''ipfs://'' [] url))))"

definition build_metrics :: "Env \<Rightarrow> FetchedData \<Rightarrow> string + ProfileMetrics \<times> string" where
  "build_metrics env d =
     (let profile = fetched_LSP3Profile d;
          assets = fetched_LSP12IssuedAssets d;
          nm = the (js_or (case profile of None \<Rightarrow> None | Some q \<Rightarrow> lsp3_name q)
                          (Some ''Anonymous''));
          desc = the (js_or (case profile of None \<Rightarrow> None | Some q \<Rightarrow> lsp3_description q)
                            (Some []))
      in case image_cid profile of
           Inl m \<Rightarrow> Inl m
         | Inr imgCid \<Rightarrow>
             Inr (\<lparr>followers = \<lfloor>random1 env * 500\<rfloor>,
                   postsCount = (case assets of None \<Rightarrow> 0 | Some a \<Rightarrow> length a),
                   engagementRate = toFixed3 (random2 env * (1 / 10)),
                   profileName = Some nm,
                   profileImageCid = imgCid,
                   description = Some desc\<rparr>, nm))"

definition fetchMetrics :: "Env \<Rightarrow> AppState \<Rightarrow> AppState \<times> Effect list" where
  "fetchMetrics env st =
     (case address st of
        None \<Rightarrow> (st, [])
      | Some a \<Rightarrow>
        if a = [] then (st, [])
        else
          let st1 = st\<lparr>loading_metrics := True, error := None\<rparr>;
              st2 = st1\<lparr>logs := addLog (stamp1 env)
                      \<lparr>entry_name = ''Fetch Metrics'', entry_status = ''pending'',
                       entry_message = ''Loading profile...'', entry_txHash = None\<rparr>
                      (logs st1)\<rparr>;
              failed = (\<lambda>m. (log_failed env ''Fetch Metrics'' m st2)
                               \<lparr>metrics := None, loading_metrics := False\<rparr>)
          in case fetchData env a of
               Inl m \<Rightarrow> (failed m, [FetchData a])
             | Inr d \<Rightarrow>
               (case build_metrics env d of
                  Inl m \<Rightarrow> (failed m, [FetchData a])
                | Inr (ms, nm) \<Rightarrow>
                    (st2\<lparr>metrics := Some ms,
                         logs := addLog (stamp2 env)
                           \<lparr>entry_name = ''Fetch Metrics'', entry_status = ''success'',
                            entry_message = ''Loaded '' @ nm, entry_txHash = None\<rparr>
                           (logs st2),
                         loading_metrics := False\<rparr>, [FetchData a])))"

text \<open>
  \<open>getRecom\<close>. Without metrics or without an address it only sets the error message.
  \<open>res.data\<close> is \<open>None\<close> when the answer has no body: reading \<open>action_name\<close> of it
  then throws, after \<open>setRecommendation(res.data)\<close>.
\<close>

definition getRecom :: "Env \<Rightarrow> AppState \<Rightarrow> AppState \<times> Effect list" where
  "getRecom env st =
     (case metrics st of
        None \<Rightarrow> (st\<lparr>error := Some ''Connect and load metrics first''\<rparr>, [])
      | Some ms \<Rightarrow>
        if \<not> truthy (address st)
        then (st\<lparr>error := Some ''Connect and load metrics first''\<rparr>, [])
        else
          let st1 = st\<lparr>loading_recommend := True, error := None\<rparr>;
              st2 = st1\<lparr>logs := addLog (stamp1 env)
                      \<lparr>entry_name = ''Recommend'', entry_status = ''pending'',
                       entry_message = ''Agent thinking...'', entry_txHash = None\<rparr>
                      (logs st1)\<rparr>;
              body = \<lparr>rec_up_address = the (address st), rec_followers = followers ms,
                      rec_posts = postsCount ms, rec_engagement = engagementRate ms\<rparr>
          in case post_recommend env body of
               Inl m \<Rightarrow>
                 ((log_failed env ''Recommend'' m st2)\<lparr>loading_recommend := False\<rparr>,
                  [PostRecommend body])
             | Inr None \<Rightarrow>
                 ((log_failed env ''Recommend''
                     ''Cannot read properties of null (reading 'action_name')''
                     (st2\<lparr>recommendation := None\<rparr>))\<lparr>loading_recommend := False\<rparr>,
                  [PostRecommend body])
             | Inr (Some r) \<Rightarrow>
                 (st2\<lparr>recommendation := Some r,
                      logs := addLog (stamp2 env)
                        \<lparr>entry_name = ''Recommend'', entry_status = ''success'',
                         entry_message = action_name r, entry_txHash = None\<rparr>
                        (logs st2),
                      loading_recommend := False\<rparr>, [PostRecommend body]))"

text \<open>
  The body of the \<open>try\<close> block of \<open>execAction\<close> up to the request: the payload is
  built, each required parameter checked in the source's order (target, content,
  amount). \<open>Inl\<close> is the message of the error thrown.
\<close>

definition build_payload :: "Env \<Rightarrow> string \<Rightarrow> int \<Rightarrow> ActionSpec \<Rightarrow> AppState \<Rightarrow> string + Payload" where
  "build_payload env a k action st =
     (let p0 = \<lparr>up_address = a, payload_action_id = k, target_address = None,
                post_content_cid = None, reward_amount_wei = None\<rparr>
      in if requires_includes action ''target'' \<and> \<not> isAddress env (target st)
         then Inl ''Invalid target''
         else
           let p1 = (if requires_includes action ''target''
                     then p0\<lparr>target_address := Some (target st)\<rparr> else p0)
           in if requires_includes action ''content'' \<and> content st = []
              then Inl ''Content required''
              else
                let p2 = (if requires_includes action ''content''
                          then p1\<lparr>post_content_cid := Some (content st)\<rparr> else p1)
                in if requires_includes action ''amount''
                   then (case parseUnits env (amount st) ''18'' of
                           Inl m \<Rightarrow> Inl m
                         | Inr v \<Rightarrow> Inr (p2\<lparr>reward_amount_wei := Some (toString v)\<rparr>))
                   else Inr p2)"

text \<open>
  \<open>execAction\<close>. It returns at once without a recommendation, a provider or an address.
  An action id outside the table makes \<open>action\<close> undefined, and \<open>action.name\<close> throws
  before the \<open>try\<close> block is entered: nothing is logged and the loading flag stays set.
\<close>

definition execAction :: "Env \<Rightarrow> AppState \<Rightarrow> AppState \<times> Effect list" where
  "execAction env st =
     (case recommendation st of
        None \<Rightarrow> (st, [])
      | Some r \<Rightarrow>
        if \<not> provider st \<or> \<not> truthy (address st) then (st, [])
        else
          let st1 = st\<lparr>loading_exec := True, error := None\<rparr>
          in case AVAILABLE_ACTIONS (action_id r) of
               None \<Rightarrow>
                 (st1, [Uncaught ''Cannot read properties of undefined (reading 'name')''])
             | Some action \<Rightarrow>
               let st2 = st1\<lparr>logs := addLog (stamp1 env)
                           \<lparr>entry_name = ''Execute'', entry_status = ''pending'',
                            entry_message = spec_name action, entry_txHash = None\<rparr>
                           (logs st1)\<rparr>;
                   failed = (\<lambda>m. (log_failed env ''Execute'' m st2)\<lparr>loading_exec := False\<rparr>)
               in case build_payload env (the (address st)) (action_id r) action st of
                    Inl m \<Rightarrow> (failed m, [])
                  | Inr payload \<Rightarrow>
                    (case post_execute env payload of
                       Inl m \<Rightarrow> (failed m, [PostExecute payload])
                     | Inr None \<Rightarrow>
                         (failed ''Cannot read properties of null (reading 'details')'',
                          [PostExecute payload])
                     | Inr (Some det) \<Rightarrow>
                         (st2\<lparr>logs := addLog (stamp2 env)
                                \<lparr>entry_name = ''Execute'', entry_status = ''success'',
                                 entry_message = spec_name action @ '' done'',
                                 entry_txHash =
                                   (case det of None \<Rightarrow> None
                                    | Some d \<Rightarrow> js_or (transactionHash d) (txHash d))\<rparr>
                                (logs st2),
                              recommendation := None, target := [], content := [],
                              amount := ''1'', loading_exec := False\<rparr>,
                          [PostExecute payload, ScheduleFetchMetrics])))"




section \<open>The decimal parser behind \<open>parseUnits\<close>\<close>

text \<open>
  The handlers take \<open>parseUnits\<close> from the environment. This section gives one
  function to put there: a parser of decimal strings, built from the definitions below.
\<close>

definition is_digit :: "char \<Rightarrow> bool" where
  "is_digit c = (c \<in> set ''0123456789'')"

definition digit_val :: "char \<Rightarrow> int" where
  "digit_val c = of_char c - 48"

definition int_of_digits :: "string \<Rightarrow> int" where
  "int_of_digits ds = foldl (\<lambda>a c. 10 * a + digit_val c) 0 ds"

text \<open>A decimal string cut into its sign, the digits before the point and the digits
  after it.\<close>

definition split_decimal :: "string \<Rightarrow> bool \<times> string \<times> string" where
  "split_decimal s =
     (let neg = (s \<noteq> [] \<and> hd s = CHR ''-'');
          body = (if neg then tl s else s)
      in (neg, takeWhile (\<lambda>c. c \<noteq> CHR ''.'') body,
          drop 1 (dropWhile (\<lambda>c. c \<noteq> CHR ''.'') body)))"

definition well_formed_decimal :: "string \<Rightarrow> bool" where
  "well_formed_decimal s =
     (case split_decimal s of (neg, whole, fractional) \<Rightarrow>
        list_all is_digit whole \<and> list_all is_digit fractional \<and> (whole \<noteq> [] \<or> fractional \<noteq> []))"


text \<open>The unit argument: a unit name, or the number of decimals.\<close>

definition unit_decimals :: "string \<Rightarrow> nat option" where
  "unit_decimals u =
     (if u \<noteq> [] \<and> list_all is_digit u then Some (nat (int_of_digits u))
      else map_of [(''wei'', 0), (''kwei'', 3), (''mwei'', 6), (''gwei'', 9),
                   (''szabo'', 12), (''finney'', 15), (''ether'', 18)] u)"

text \<open>
  Modelled from the spec: \<open>parseUnits\<close> is a function of the ethers package, whose
  code is not part of the sources. The model is the reading the call site
  \<open>parseUnits(amount, "18")\<close> and its comment give it: the value is a decimal string, the
  unit \<open>"18"\<close> is the number of decimals, and the result is the value scaled by ten to
  that power. A string that is no decimal number, or that has non-zero digits beyond the
  decimals, is refused with an error.
\<close>

definition ethers_parseUnits :: "string \<Rightarrow> string \<Rightarrow> string + int" where
  "ethers_parseUnits v u =
     (case unit_decimals u of
        None \<Rightarrow> Inl ''invalid unit''
      | Some d \<Rightarrow>
        if \<not> well_formed_decimal v then Inl ''invalid FixedNumber string value''
        else
          (case split_decimal v of (neg, whole, fractional) \<Rightarrow>
             if \<not> list_all (\<lambda>c. c = CHR ''0'') (drop d fractional)
             then Inl ''too many decimals for format''
             else
               let n = int_of_digits whole * 10 ^ d
                       + int_of_digits (take d (fractional @ replicate d (CHR ''0'')))
               in Inr (if neg then - n else n)))"

section \<open>Example inputs\<close>

text \<open>An environment in which the server answers every request and the profile has two
  issued assets, and a connected state.\<close>

definition example_env :: Env where
  "example_env =
     \<lparr>isAddress = (\<lambda>s. length s = 42 \<and> take 2 s = ''0x''),
      parseUnits = ethers_parseUnits,
      post_execute = (\<lambda>p. Inr (Some (Some \<lparr>transactionHash = Some ''0xabc'', txHash = None\<rparr>))),
      post_recommend = (\<lambda>b. Inr (Some \<lparr>action_id = 1, action_name = ''Follow Profile''\<rparr>)),
      fetchData = (\<lambda>a. Inr \<lparr>fetched_LSP3Profile = None,
                              fetched_LSP12IssuedAssets = Some [''0x01'', ''0x02'']\<rparr>),
      random1 = 0, random2 = 0,
      stamp1 = (''id-1'', 1000), stamp2 = (''id-2'', 1001)\<rparr>"

definition example_address :: string where
  "example_address = ''0x'' @ replicate 40 (CHR ''1'')"

definition example_state :: AppState where
  "example_state =
     \<lparr>address = Some example_address, provider = True, metrics = None,
      recommendation = None, logs = [], loading_metrics = False,
      loading_recommend = False, loading_exec = False, error = None,
      target = [], content = [], amount = ''1''\<rparr>"


section \<open>The badge contract (BadgeNFT.sol)\<close>

text \<open>
  Solidity's \<open>address\<close> is a 160-bit word, \<open>bytes32\<close> a 256-bit word, \<open>bytes\<close> a
  list of bytes. The contract inherits its storage and the internal function
  \<open>_mint\<close> from the LSP8 base contract of the LUKSO library; the model takes
  \<open>_mint\<close> as the parameter \<open>internal_mint\<close>, a function on the storage that
  either reverts (\<open>Inl\<close>) or returns the new storage. The owner set by the
  constructor is part of the storage.
\<close>

type_synonym address = "160 word"
type_synonym bytes32 = "256 word"
type_synonym bytes = "8 word list"

record BadgeStorage =
  contract_owner :: address
  tokenOwnerOf :: "bytes32 \<rightharpoonup> address"

type_synonym internal_mint =
  "address \<Rightarrow> bytes32 \<Rightarrow> bool \<Rightarrow> bytes \<Rightarrow> BadgeStorage \<Rightarrow> string + BadgeStorage"

text \<open>\<open>mint\<close> is \<open>external\<close>; \<open>msg_sender\<close> is the caller. The body is the call of
  \<open>_mint\<close> alone: the access check is a comment in the source.\<close>

definition mint ::
  "internal_mint \<Rightarrow> address \<Rightarrow> address \<Rightarrow> bytes32 \<Rightarrow> bool \<Rightarrow> bytes \<Rightarrow> BadgeStorage
     \<Rightarrow> string + BadgeStorage" where
  "mint internal_mint msg_sender to tokenId force dat s = internal_mint to tokenId force dat s"

section \<open>The permission script (configureKeyManager.js)\<close>















section \<open>The policy store\<close>

text \<open>
  Modelled from the spec: the policy store belongs to the Python backend
  (\<open>backend.rl_agent\<close>), which is not part of the sources. An observation has three
  components. A loaded policy session gives, for an observation, the estimated value of
  each action id.
\<close>

record Observation =
  obs_followers :: real
  obs_posts :: real
  obs_engagement :: real

type_synonym PolicySession = "Observation \<Rightarrow> nat \<Rightarrow> real"

text \<open>Modelled from the spec: an observation is valid when each component lies between
  0 and 1.\<close>

definition valid_observation :: "Observation \<Rightarrow> bool" where
  "valid_observation ob =
     (0 \<le> obs_followers ob \<and> obs_followers ob \<le> 1
      \<and> 0 \<le> obs_posts ob \<and> obs_posts ob \<le> 1
      \<and> 0 \<le> obs_engagement ob \<and> obs_engagement ob \<le> 1)"

text \<open>
  Modelled from the spec: greedy selection among the action ids 0, 1, 2 is missing from
  the sources. The ids are visited in increasing order and the best so far is replaced
  only by a strictly greater value, so that the lowest id wins a tie.
\<close>

definition greedy :: "(nat \<Rightarrow> real) \<Rightarrow> nat" where
  "greedy q = fold (\<lambda>a best. if q best < q a then a else best) [1, 2] 0"

text \<open>
  Modelled from the spec: \<open>selectAction\<close> is missing from the sources. Without
  exploration the choice is greedy. With exploration it is epsilon-greedy: \<open>u\<close> is a
  draw from the unit interval and \<open>k\<close> a draw among the three action ids; the random
  action is taken when \<open>u\<close> is below \<open>epsilon\<close>.
\<close>

definition selectAction ::
  "PolicySession \<Rightarrow> real \<Rightarrow> real \<Rightarrow> nat \<Rightarrow> Observation \<Rightarrow> bool \<Rightarrow> nat" where
  "selectAction session epsilon u k ob explore =
     (if explore \<and> u < epsilon then k mod 3 else greedy (session ob))"

definition example_session :: PolicySession where
  "example_session ob a =
     (if a = 0 then obs_followers ob
      else if a = 1 then 1 - obs_posts ob
      else if a = 2 then obs_engagement ob else 0)"

section \<open>The action executor\<close>

text \<open>
  Modelled from the spec: the action executor belongs to the Python backend, which is not
  part of the sources. A request names a profile and an action id and carries the
  parameters by name.
\<close>

record ActionRequest =
  req_profile :: string
  req_action_id :: nat
  req_params :: "string \<rightharpoonup> string"

datatype ExecError =
    InvalidParameters
  | SubmissionError
  | ExecutionReverted "string option"

datatype ExecutionResult = Confirmed string | Failed ExecError

text \<open>What the chain answers to one submission: it is rejected before inclusion (or
  not included in time), or it is included and its receipt reports success with the
  transaction hash, or a revert with its reason where that can be decoded.\<close>

datatype Receipt = ReceiptSuccess string | ReceiptReverted "string option"

datatype Submission = Rejected | Included Receipt

text \<open>Modelled from the spec: the parameters each action requires, by action id
  (Post, Follow, Reward).\<close>

definition required_params :: "nat \<Rightarrow> string list option" where
  "required_params k =
     (if k = 0 then Some [''content'']
      else if k = 1 then Some [''target'']
      else if k = 2 then Some [''target'', ''amount'']
      else None)"

definition is_hex_digit :: "char \<Rightarrow> bool" where
  "is_hex_digit c = (c \<in> set ''0123456789abcdefABCDEF'')"

text \<open>Modelled from the spec: a parameter is valid when the target is address-shaped,
  the content is not empty, the amount is a positive whole number in decimal.\<close>

definition valid_param :: "string \<Rightarrow> string \<Rightarrow> bool" where
  "valid_param nm v =
     (if nm = ''target''
      then length v = 42 \<and> take 2 v = ''0x'' \<and> list_all is_hex_digit (drop 2 v)
      else if nm = ''content'' then v \<noteq> []
      else if nm = ''amount'' then v \<noteq> [] \<and> list_all is_digit v \<and> 0 < int_of_digits v
      else False)"

definition valid_request :: "ActionRequest \<Rightarrow> bool" where
  "valid_request rq =
     (case required_params (req_action_id rq) of
        None \<Rightarrow> False
      | Some ps \<Rightarrow>
          list_all (\<lambda>nm. case req_params rq nm of None \<Rightarrow> False | Some v \<Rightarrow> valid_param nm v) ps)"

text \<open>
  Modelled from the spec: the submission loop is missing from the sources.
  \<open>submit_loop chain n i\<close> has \<open>n\<close> attempts left and has made \<open>i\<close>; \<open>chain i\<close> is
  the answer to the attempt with index \<open>i\<close>. A rejected submission is tried again
  while attempts are left; an included one ends the loop. The result comes with the number
  of submissions made.
\<close>

fun submit_loop :: "(nat \<Rightarrow> Submission) \<Rightarrow> nat \<Rightarrow> nat \<Rightarrow> ExecutionResult \<times> nat" where
  "submit_loop chain 0 i = (Failed SubmissionError, i)"
| "submit_loop chain (Suc n) i =
     (case chain i of
        Rejected \<Rightarrow> submit_loop chain n (Suc i)
      | Included (ReceiptSuccess h) \<Rightarrow> (Confirmed h, Suc i)
      | Included (ReceiptReverted reason) \<Rightarrow> (Failed (ExecutionReverted reason), Suc i))"

text \<open>Modelled from the spec: the retry bound is configuration, three by default.\<close>

definition default_retry_bound :: nat where
  "default_retry_bound = 3"

text \<open>Modelled from the spec: \<open>execute\<close> is missing from the sources. A request that
  is not valid fails before anything is submitted.\<close>

definition execute :: "nat \<Rightarrow> (nat \<Rightarrow> Submission) \<Rightarrow> ActionRequest \<Rightarrow> ExecutionResult \<times> nat" where
  "execute retry_bound chain rq =
     (if \<not> valid_request rq then (Failed InvalidParameters, 0)
      else submit_loop chain retry_bound 0)"

text \<open>The result an included submission leads to.\<close>

definition result_of_receipt :: "Receipt \<Rightarrow> ExecutionResult" where
  "result_of_receipt rc =
     (case rc of ReceiptSuccess h \<Rightarrow> Confirmed h
      | ReceiptReverted reason \<Rightarrow> Failed (ExecutionReverted reason))"

definition example_request :: ActionRequest where
  "example_request =
     \<lparr>req_profile = ''0x'' @ replicate 40 (CHR ''1''), req_action_id = 2,
      req_params = [''target'' \<mapsto> ''0x'' @ replicate 40 (CHR ''a''),
                    ''amount'' \<mapsto> ''1000000000000000000'']\<rparr>"

section \<open>The action table\<close>

text \<open>
  Claim C4. The action table has exactly the keys 0, 1 and 2; they carry the display
  names Make Post, Follow Profile and Reward Follower, and the required parameters are
  content for the first, target for the second, target and amount for the third.
  Action id 1 is Follow Profile.
\<close>

theorem available_actions_table:
  "dom AVAILABLE_ACTIONS = {0, 1, 2}
   \<and> map_option spec_name (AVAILABLE_ACTIONS 0) = Some ''Make Post''
   \<and> map_option spec_name (AVAILABLE_ACTIONS 1) = Some ''Follow Profile''
   \<and> map_option spec_name (AVAILABLE_ACTIONS 2) = Some ''Reward Follower''
   \<and> map_option required_set (AVAILABLE_ACTIONS 0) = Some {''content''}
   \<and> map_option required_set (AVAILABLE_ACTIONS 1) = Some {''target''}
   \<and> map_option required_set (AVAILABLE_ACTIONS 2) = Some {''target'', ''amount''}"
proof -
  have "dom AVAILABLE_ACTIONS = {0, 1, 2}"
    by (auto simp: AVAILABLE_ACTIONS_def dom_def split: if_splits)
  then show ?thesis
    by (simp add: AVAILABLE_ACTIONS_def required_set_def)
qed

section \<open>Validation in \<open>execAction\<close>\<close>








section \<open>The amount sent with a reward\<close>












section \<open>The activity log\<close>

text \<open>What each handler does to the log: past its entry guard it writes a \<open>pending\<close>
  entry and then one entry that is \<open>success\<close> or \<open>failed\<close>; stopped at the guard (or,
  in \<open>execAction\<close>, by an action id outside the table) it leaves the log alone.\<close>

lemma fetchMetrics_logs:
  "if truthy (address st)
   then \<exists>t. logs (fst (fetchMetrics env st)) =
               addLog (stamp2 env) t
                 (addLog (stamp1 env)
                    \<lparr>entry_name = ''Fetch Metrics'', entry_status = ''pending'',
                     entry_message = ''Loading profile...'', entry_txHash = None\<rparr> (logs st))
          \<and> entry_name t = ''Fetch Metrics''
          \<and> (entry_status t = ''success'' \<or> entry_status t = ''failed'')
   else logs (fst (fetchMetrics env st)) = logs st"
  by (auto simp: fetchMetrics_def truthy_def Let_def log_failed_def
           split: option.splits sum.splits prod.splits
           intro!: exI [of _ "\<lparr>entry_name = ''Fetch Metrics'', entry_status = _,
                                entry_message = _, entry_txHash = None\<rparr>"])

lemma getRecom_logs:
  "if metrics st \<noteq> None \<and> truthy (address st)
   then \<exists>t. logs (fst (getRecom env st)) =
               addLog (stamp2 env) t
                 (addLog (stamp1 env)
                    \<lparr>entry_name = ''Recommend'', entry_status = ''pending'',
                     entry_message = ''Agent thinking...'', entry_txHash = None\<rparr> (logs st))
          \<and> entry_name t = ''Recommend''
          \<and> (entry_status t = ''success'' \<or> entry_status t = ''failed'')
   else logs (fst (getRecom env st)) = logs st"
  by (auto simp: getRecom_def Let_def log_failed_def
           split: option.splits sum.splits
           intro!: exI [of _ "\<lparr>entry_name = ''Recommend'', entry_status = _,
                                entry_message = _, entry_txHash = None\<rparr>"])

lemma execAction_logs:
  "if provider st \<and> truthy (address st)
      \<and> (\<exists>r. recommendation st = Some r \<and> AVAILABLE_ACTIONS (action_id r) \<noteq> None)
   then \<exists>t. logs (fst (execAction env st)) =
               addLog (stamp2 env) t
                 (addLog (stamp1 env)
                    \<lparr>entry_name = ''Execute'', entry_status = ''pending'',
                     entry_message =
                       spec_name (the (AVAILABLE_ACTIONS (action_id (the (recommendation st))))),
                     entry_txHash = None\<rparr> (logs st))
          \<and> entry_name t = ''Execute''
          \<and> (entry_status t = ''success'' \<or> entry_status t = ''failed'')
   else logs (fst (execAction env st)) = logs st"
  by (auto simp: execAction_def Let_def log_failed_def
           split: option.splits sum.splits
           intro!: exI [of _ "\<lparr>entry_name = ''Execute'', entry_status = _,
                                entry_message = _, entry_txHash = _\<rparr>"])






text \<open>
  Claim C8, as the code has it. An attempt that gets past the entry guard of its
  handler (an address for \<open>fetchMetrics\<close>; metrics and an address for \<open>getRecom\<close>;
  a provider, an address and a recommendation whose action id is in the table for
  \<open>execAction\<close>) writes a \<open>pending\<close> entry and then exactly one entry more, whose
  status is \<open>success\<close> or \<open>failed\<close>. An attempt that does not get past the guard
  writes no entry.
\<close>

theorem attempt_logs_pending_then_terminal:
  "(if truthy (address st)
    then \<exists>t. logs (fst (fetchMetrics env st)) =
               addLog (stamp2 env) t
                 (addLog (stamp1 env)
                    \<lparr>entry_name = ''Fetch Metrics'', entry_status = ''pending'',
                     entry_message = ''Loading profile...'', entry_txHash = None\<rparr> (logs st))
          \<and> entry_name t = ''Fetch Metrics''
          \<and> (entry_status t = ''success'' \<or> entry_status t = ''failed'')
    else logs (fst (fetchMetrics env st)) = logs st)
 \<and> (if metrics st \<noteq> None \<and> truthy (address st)
    then \<exists>t. logs (fst (getRecom env st)) =
               addLog (stamp2 env) t
                 (addLog (stamp1 env)
                    \<lparr>entry_name = ''Recommend'', entry_status = ''pending'',
                     entry_message = ''Agent thinking...'', entry_txHash = None\<rparr> (logs st))
          \<and> entry_name t = ''Recommend''
          \<and> (entry_status t = ''success'' \<or> entry_status t = ''failed'')
    else logs (fst (getRecom env st)) = logs st)
 \<and> (if provider st \<and> truthy (address st)
      \<and> (\<exists>r. recommendation st = Some r \<and> AVAILABLE_ACTIONS (action_id r) \<noteq> None)
    then \<exists>t. logs (fst (execAction env st)) =
               addLog (stamp2 env) t
                 (addLog (stamp1 env)
                    \<lparr>entry_name = ''Execute'', entry_status = ''pending'',
                     entry_message =
                       spec_name (the (AVAILABLE_ACTIONS (action_id (the (recommendation st))))),
                     entry_txHash = None\<rparr> (logs st))
          \<and> entry_name t = ''Execute''
          \<and> (entry_status t = ''success'' \<or> entry_status t = ''failed'')
    else logs (fst (execAction env st)) = logs st)"
  by (intro conjI fetchMetrics_logs getRecom_logs execAction_logs)

text \<open>The theorem at a metrics fetch in the connected state.\<close>

theorem attempt_logs_pending_then_terminal_witness:
  "truthy (address example_state)
   \<and> (\<exists>t. logs (fst (fetchMetrics example_env example_state)) =
               addLog (stamp2 example_env) t
                 (addLog (stamp1 example_env)
                    \<lparr>entry_name = ''Fetch Metrics'', entry_status = ''pending'',
                     entry_message = ''Loading profile...'', entry_txHash = None\<rparr>
                    (logs example_state))
          \<and> entry_name t = ''Fetch Metrics''
          \<and> (entry_status t = ''success'' \<or> entry_status t = ''failed''))
   \<and> map log_status (logs (fst (fetchMetrics example_env example_state)))
       = [''success'', ''pending'']"
proof -
  have h: "truthy (address example_state)" by code_simp
  have "map log_status (logs (fst (fetchMetrics example_env example_state)))
          = [''success'', ''pending'']"
    by code_simp
  with attempt_logs_pending_then_terminal [of example_state example_env] h
  show ?thesis by simp
qed

text \<open>
  Claim C8 as stated says that no attempt ends without a terminal entry. A click on
  Get Recommendation while no metrics are loaded ends with an error message and
  without any log entry.
\<close>

theorem recommend_without_metrics_logs_nothing:
  "metrics example_state = None
   \<and> logs (fst (getRecom example_env example_state)) = logs example_state
   \<and> error (fst (getRecom example_env example_state)) = Some ''Connect and load metrics first''
   \<and> snd (getRecom example_env example_state) = []"
  by code_simp

section \<open>The metrics\<close>

text \<open>
  Claim C3 says that follower count, post count and engagement rate are read from the
  chain. In \<open>fetchMetrics\<close> only the post count is: with the same data fetched for the
  same profile, two runs whose \<open>Math.random()\<close> results differ give 0 followers and
  engagement 0 in one run, 250 followers and engagement 0.05 in the other.
\<close>

theorem followers_are_random:
  "fetchData (example_env\<lparr>random1 := 0, random2 := 0\<rparr>)
     = fetchData (example_env\<lparr>random1 := 1 / 2, random2 := 1 / 2\<rparr>)
   \<and> map_option (\<lambda>m. (followers m, postsCount m, engagementRate m))
        (metrics (fst (fetchMetrics (example_env\<lparr>random1 := 0, random2 := 0\<rparr>) example_state)))
      = Some (0, 2, 0)
   \<and> map_option (\<lambda>m. (followers m, postsCount m, engagementRate m))
        (metrics (fst (fetchMetrics (example_env\<lparr>random1 := 1 / 2, random2 := 1 / 2\<rparr>)
                         example_state)))
      = Some (250, 2, 1 / 20)"
proof -
  have "fetchData (example_env\<lparr>random1 := 0, random2 := 0\<rparr>)
     = fetchData (example_env\<lparr>random1 := 1 / 2, random2 := 1 / 2\<rparr>)"
    by simp
  moreover have "map_option (\<lambda>m. (followers m, postsCount m, engagementRate m))
        (metrics (fst (fetchMetrics (example_env\<lparr>random1 := 0, random2 := 0\<rparr>) example_state)))
      = Some (0, 2, 0)"
    by code_simp
  moreover have "map_option (\<lambda>m. (followers m, postsCount m, engagementRate m))
        (metrics (fst (fetchMetrics (example_env\<lparr>random1 := 1 / 2, random2 := 1 / 2\<rparr>)
                         example_state)))
      = Some (250, 2, 1 / 20)"
    by code_simp
  ultimately show ?thesis by blast
qed


section \<open>Minting badges\<close>

text \<open>
  Claim C9. \<open>mint\<close> makes no use of its caller: for every caller and all arguments
  it is the call of \<open>_mint\<close> with these arguments, so it does for any account what
  it does for the owner.
\<close>

theorem mint_open_to_every_caller:
  "mint internal_mint caller to tokenId force dat s = internal_mint to tokenId force dat s
   \<and> mint internal_mint caller to tokenId force dat s
       = mint internal_mint (contract_owner s) to tokenId force dat s"
  by (simp add: mint_def)

section \<open>The selectors the permission script grants\<close>





section \<open>Greedy selection\<close>

lemma greedy_cases:
  "greedy q = (if q 0 < q 1 then (if q 1 < q 2 then 2 else 1) else (if q 0 < q 2 then 2 else 0))"
  by (simp add: greedy_def)

text \<open>
  Claim C5. Without exploration, \<open>selectAction\<close> returns an action id among 0, 1, 2
  whose estimated value is the highest; among the ids with that value it returns the
  lowest; and the result does not depend on epsilon or on the random draws, so it is
  the same in every run. This holds for every observation, those in the unit cube
  among them.
\<close>

theorem greedy_selection:
  "selectAction session epsilon u k ob False \<in> {0, 1, 2}
   \<and> (\<forall>b \<in> {0, 1, 2}. session ob b \<le> session ob (selectAction session epsilon u k ob False))
   \<and> (\<forall>b \<in> {0, 1, 2}. session ob b = session ob (selectAction session epsilon u k ob False)
          \<longrightarrow> selectAction session epsilon u k ob False \<le> b)
   \<and> selectAction session epsilon u k ob False = selectAction session epsilon' u' k' ob False"
  by (auto simp: selectAction_def greedy_cases)

text \<open>The theorem at the observation (0.2, 0.1, 0.05), in the unit cube, with a session
  that values action 1 highest there.\<close>

theorem greedy_selection_witness:
  "valid_observation \<lparr>obs_followers = 1 / 5, obs_posts = 1 / 10, obs_engagement = 1 / 20\<rparr>
   \<and> selectAction example_session (1 / 10) 0 2
        \<lparr>obs_followers = 1 / 5, obs_posts = 1 / 10, obs_engagement = 1 / 20\<rparr> False = 1
   \<and> example_session \<lparr>obs_followers = 1 / 5, obs_posts = 1 / 10, obs_engagement = 1 / 20\<rparr> 0
       \<le> example_session
            \<lparr>obs_followers = 1 / 5, obs_posts = 1 / 10, obs_engagement = 1 / 20\<rparr> 1
   \<and> example_session \<lparr>obs_followers = 1 / 5, obs_posts = 1 / 10, obs_engagement = 1 / 20\<rparr> 2
       \<le> example_session
            \<lparr>obs_followers = 1 / 5, obs_posts = 1 / 10, obs_engagement = 1 / 20\<rparr> 1"
proof -
  let ?ob = "\<lparr>obs_followers = 1 / 5, obs_posts = 1 / 10, obs_engagement = 1 / 20\<rparr>"
  have v: "valid_observation ?ob" by (simp add: valid_observation_def)
  have a: "selectAction example_session (1 / 10) 0 2 ?ob False = 1"
    by (simp add: selectAction_def greedy_def example_session_def)
  from greedy_selection [of example_session "1 / 10" 0 2 ?ob] a
  have "example_session ?ob 0 \<le> example_session ?ob 1"
    and "example_session ?ob 2 \<le> example_session ?ob 1"
    by simp_all
  with v a show ?thesis by blast
qed

section \<open>Retries of the executor\<close>

lemma submit_loop_all_rejected:
  "(\<And>j. j < n \<Longrightarrow> chain (i + j) = Rejected)
     \<Longrightarrow> submit_loop chain n i = (Failed SubmissionError, i + n)"
proof (induction n arbitrary: i)
  case 0
  show ?case by simp
next
  case (Suc n)
  have "chain i = Rejected" using Suc.prems [of 0] by simp
  moreover have "submit_loop chain n (Suc i) = (Failed SubmissionError, Suc i + n)"
  proof (rule Suc.IH)
    fix j assume "j < n"
    then show "chain (Suc i + j) = Rejected" using Suc.prems [of "Suc j"] by simp
  qed
  ultimately show ?case by simp
qed

lemma submit_loop_stops:
  "k < n \<Longrightarrow> (\<And>j. j < k \<Longrightarrow> chain (i + j) = Rejected) \<Longrightarrow> chain (i + k) = Included rc
     \<Longrightarrow> submit_loop chain n i = (result_of_receipt rc, Suc (i + k))"
proof (induction k arbitrary: n i)
  case 0
  then obtain m where "n = Suc m" by (cases n) auto
  with 0 show ?case by (simp add: result_of_receipt_def split: Receipt.splits)
next
  case (Suc k)
  then obtain m where m: "n = Suc m" by (cases n) auto
  have r: "chain i = Rejected" using Suc.prems(2) [of 0] by simp
  have "submit_loop chain m (Suc i) = (result_of_receipt rc, Suc (Suc i + k))"
  proof (rule Suc.IH)
    show "k < m" using Suc.prems(1) m by simp
    show "chain (Suc i + k) = Included rc" using Suc.prems(3) by simp
    fix j assume "j < k"
    then show "chain (Suc i + j) = Rejected" using Suc.prems(2) [of "Suc j"] by simp
  qed
  with r m show ?case by simp
qed

text \<open>
  Claim C6. For a valid request: when every submission up to the retry bound is
  rejected before inclusion, \<open>execute\<close> fails with \<open>SubmissionError\<close> after exactly
  as many submissions as the bound, three with the default bound; when a submission is
  included after only rejected ones, \<open>execute\<close> ends with that submission, confirmed
  or reverted as its receipt says, and submits nothing after it.
\<close>

theorem execute_retries_to_bound:
  assumes "valid_request rq"
  shows "((\<forall>j < retry_bound. chain j = Rejected)
            \<longrightarrow> execute retry_bound chain rq = (Failed SubmissionError, retry_bound))
       \<and> (k < retry_bound \<and> (\<forall>j < k. chain j = Rejected) \<and> chain k = Included rc
            \<longrightarrow> execute retry_bound chain rq = (result_of_receipt rc, Suc k))
       \<and> ((\<forall>j < 3. chain j = Rejected)
            \<longrightarrow> execute default_retry_bound chain rq = (Failed SubmissionError, 3))"
proof (intro conjI impI)
  assume "\<forall>j < retry_bound. chain j = Rejected"
  then show "execute retry_bound chain rq = (Failed SubmissionError, retry_bound)"
    using assms submit_loop_all_rejected [of retry_bound chain 0]
    by (simp add: execute_def)
next
  assume "k < retry_bound \<and> (\<forall>j < k. chain j = Rejected) \<and> chain k = Included rc"
  then show "execute retry_bound chain rq = (result_of_receipt rc, Suc k)"
    using assms submit_loop_stops [of k retry_bound chain 0 rc]
    by (simp add: execute_def)
next
  assume "\<forall>j < 3. chain j = Rejected"
  then show "execute default_retry_bound chain rq = (Failed SubmissionError, 3)"
    using assms submit_loop_all_rejected [of 3 chain 0]
    by (simp add: execute_def default_retry_bound_def)
qed

text \<open>The theorem with the default bound: three rejections give \<open>SubmissionError\<close>
  after three submissions; a revert at the second submission ends the run after two.\<close>

theorem execute_retries_to_bound_witness:
  "valid_request example_request
   \<and> execute 3 (\<lambda>i. Rejected) example_request = (Failed SubmissionError, 3)
   \<and> execute default_retry_bound (\<lambda>i. Rejected) example_request = (Failed SubmissionError, 3)
   \<and> execute 3 (\<lambda>i. if i = 1 then Included (ReceiptReverted None) else Rejected)
        example_request = (Failed (ExecutionReverted None), 2)"
proof -
  have v: "valid_request example_request" by code_simp
  let ?c = "\<lambda>i::nat. if i = 1 then Included (ReceiptReverted None) else Rejected"
  from execute_retries_to_bound [OF v, of 3 "\<lambda>i. Rejected"]
  have a: "execute 3 (\<lambda>i. Rejected) example_request = (Failed SubmissionError, 3)"
    and b: "execute default_retry_bound (\<lambda>i. Rejected) example_request
              = (Failed SubmissionError, 3)"
    by simp_all
  have "(1::nat) < 3 \<and> (\<forall>j < 1. ?c j = Rejected) \<and> ?c 1 = Included (ReceiptReverted None)"
    by simp
  with execute_retries_to_bound [OF v, of 3 ?c 1 "ReceiptReverted None"]
  have "execute 3 ?c example_request = (result_of_receipt (ReceiptReverted None), Suc 1)"
    by blast
  then have "execute 3 ?c example_request = (Failed (ExecutionReverted None), 2)"
    by (simp add: result_of_receipt_def)
  with v a b show ?thesis by blast
qed

end
